theory Spec2Isabelle
  imports Complex_Main
begin

section \<open>Asset pricing via simulation: the Monte Carlo estimator\<close>

text \<open>
  The development embeds the two functions of the notebook
  \<^verbatim>\<open>day3/applications/asset_pricing/asset_pricing_simulation.ipynb\<close>:
  \<^verbatim>\<open>simulate_forward_sum_ave\<close> (the M-path average at one state) and
  \<^verbatim>\<open>compute_prices_across_states\<close> (the parallel loop over the grid).

  Conventions of the embedding:
  \<^item> floating-point numbers are idealised as \<^typ>\<open>real\<close>: no rounding, no overflow, no
    infinities or not-a-number values. What the code does when a result leaves the
    floating-point range is the subject of a second embedding, over IEEE values;
  \<^item> the keyword arguments of \<^verbatim>\<open>simulate_forward_sum_ave\<close> are one record, and the
    values after the \<^verbatim>\<open>=\<close> signs are the record \<open>defaults\<close>;
  \<^item> the random generator of \<^verbatim>\<open>np.random\<close> is hidden state in the source and explicit
    state here: a function takes the generator state before the call and returns the
    state after it, next to its result. The generator's algorithm is not part of the
    notebook and is a parameter;
  \<^item> \<^verbatim>\<open>np.empty\<close> returns uninitialised memory: its contents are a parameter too;
  \<^item> an exception is a value \<open>Inl e\<close>.
\<close>

subsection \<open>Parameters, errors, generator\<close>

record params =
  \<beta> :: real
  \<gamma> :: real
  \<rho> :: real
  \<sigma> :: real
  \<mu>_d :: real
  \<sigma>_d :: real
  \<mu>_c :: real
  \<sigma>_c :: real
  N :: int
  M :: int

text \<open>The default values in the signature of \<^verbatim>\<open>simulate_forward_sum_ave\<close>.\<close>

definition defaults :: params where
  "defaults = \<lparr>\<beta> = 0.96, \<gamma> = 2.0, \<rho> = 0.9, \<sigma> = 0.05, \<mu>_d = 0.01, \<sigma>_d = 0.01,
                \<mu>_c = 0.05, \<sigma>_c = 0.01, N = 1000, M = 20000\<rparr>"

text \<open>
  \<open>ValueError\<close>: \<^verbatim>\<open>np.empty\<close> called with a negative length.
  \<open>MeanOfEmptyArray\<close>: \<^verbatim>\<open>.mean()\<close> of an array of length 0, which is the sum 0.0 divided
  by the size 0. It is no finite number under any reading: the compiled code divides
  under the Python error model (ZeroDivisionError), plain NumPy yields nan.
\<close>

datatype error = ValueError | MeanOfEmptyArray

text \<open>
  The generator: \<open>seed m\<close> is the state that \<^verbatim>\<open>np.random.seed(m)\<close> installs, whatever the
  state was before; \<open>randn g\<close> is the variate that \<^verbatim>\<open>randn()\<close> returns in state \<open>g\<close>,
  with the state it leaves behind.
\<close>

record 'g generator =
  seed :: "nat \<Rightarrow> 'g"
  randn :: "'g \<Rightarrow> real \<times> 'g"

text \<open>\<^verbatim>\<open>np.empty(n)\<close>: \<open>n\<close> cells of unspecified contents \<open>junk\<close>; a negative \<open>n\<close> raises.\<close>

definition np_empty :: "(nat \<Rightarrow> real) \<Rightarrow> int \<Rightarrow> error + real list" where
  "np_empty junk n = (if n < 0 then Inl ValueError else Inr (map junk [0..<nat n]))"

text \<open>\<^verbatim>\<open>a.mean()\<close>: the sum of the cells divided by their number.\<close>

definition mean :: "real list \<Rightarrow> error + real" where
  "mean a = (if length a = 0 then Inl MeanOfEmptyArray
             else Inr (sum_list a / real (length a)))"

subsection \<open>One path\<close>

text \<open>
  The body of \<^verbatim>\<open>for t in range(N)\<close>. The loop state is the generator state, \<^verbatim>\<open>x\<close> and
  \<^verbatim>\<open>A_path\<close>. The factor is computed from \<^verbatim>\<open>x\<close> before \<^verbatim>\<open>x\<close> is updated. The index
  \<open>t\<close> is below the length of \<^verbatim>\<open>A_path\<close> in every iteration of the source, so the write
  is in range.
\<close>

definition path_step ::
  "'g generator \<Rightarrow> params \<Rightarrow> nat \<Rightarrow> 'g \<times> real \<times> real list \<Rightarrow> 'g \<times> real \<times> real list" where
  "path_step rng p t s =
     (case s of (g, x, A_path) \<Rightarrow>
        (case randn rng g of (\<eta>_c, g1) \<Rightarrow>
        (case randn rng g1 of (\<eta>_d, g2) \<Rightarrow>
           (let t1 = - \<gamma> p * \<mu>_c p + \<mu>_d p + (1 - \<gamma> p) * x;
                t2 = - \<gamma> p * \<sigma>_c p * \<eta>_c + \<sigma>_d p * \<eta>_d;
                A_path' = A_path[t := \<beta> p * exp (t1 + t2)]
            in (case randn rng g2 of (\<xi>, g3) \<Rightarrow>
                  (g3, \<rho> p * x + \<sigma> p * \<xi>, A_path'))))))"

text \<open>The body of \<^verbatim>\<open>for n in range(N)\<close>; the loop state is \<^verbatim>\<open>A_prod\<close> and \<^verbatim>\<open>\<Lambda>\<close>.\<close>

definition forward_step :: "real list \<Rightarrow> nat \<Rightarrow> real \<times> real \<Rightarrow> real \<times> real" where
  "forward_step A_path n s =
     (case s of (A_prod, \<Lambda>) \<Rightarrow>
        (let A_prod' = A_prod * A_path ! n in (A_prod', \<Lambda> + A_prod')))"

text \<open>
  The body of \<^verbatim>\<open>for m in range(M)\<close> up to the value \<^verbatim>\<open>\<Lambda>\<close> of the path: reseed with \<open>m\<close>,
  allocate \<^verbatim>\<open>A_path\<close>, fill it, sum the running products. The state \<open>g\<close> before the
  call is overwritten by the reseeding.
\<close>

definition simulate_path ::
  "'g generator \<Rightarrow> (nat \<Rightarrow> real) \<Rightarrow> 'g \<Rightarrow> real \<Rightarrow> params \<Rightarrow> nat \<Rightarrow> 'g \<times> (error + real)" where
  "simulate_path rng junk g x0 p m =
     (let g0 = seed rng m in
      case np_empty junk (N p) of
        Inl e \<Rightarrow> (g0, Inl e)
      | Inr A0 \<Rightarrow>
          (case fold (path_step rng p) [0..<nat (N p)] (g0, x0, A0) of (g', x, A_path) \<Rightarrow>
          (case fold (forward_step A_path) [0..<nat (N p)] (1, 0) of (A_prod, \<Lambda>) \<Rightarrow>
             (g', Inr \<Lambda>))))"

subsection \<open>The average over M paths\<close>

text \<open>
  \<^verbatim>\<open>for m in range(M)\<close>, over the seeds still to run: each path's value is stored in
  \<^verbatim>\<open>\<Lambda>_vals[m]\<close>; an exception in a path ends the loop.
\<close>

fun paths_loop ::
  "'g generator \<Rightarrow> (nat \<Rightarrow> real) \<Rightarrow> real \<Rightarrow> params \<Rightarrow> nat list \<Rightarrow> 'g \<times> real list
     \<Rightarrow> 'g \<times> (error + real list)" where
  "paths_loop rng junk x0 p [] (g, \<Lambda>_vals) = (g, Inr \<Lambda>_vals)"
| "paths_loop rng junk x0 p (m # ms) (g, \<Lambda>_vals) =
     (case simulate_path rng junk g x0 p m of
        (g', Inl e) \<Rightarrow> (g', Inl e)
      | (g', Inr \<Lambda>) \<Rightarrow> paths_loop rng junk x0 p ms (g', \<Lambda>_vals[m := \<Lambda>]))"

definition simulate_forward_sum_ave ::
  "'g generator \<Rightarrow> (nat \<Rightarrow> real) \<Rightarrow> 'g \<Rightarrow> real \<Rightarrow> params \<Rightarrow> 'g \<times> (error + real)" where
  "simulate_forward_sum_ave rng junk g x0 p =
     (case np_empty junk (M p) of
        Inl e \<Rightarrow> (g, Inl e)
      | Inr \<Lambda>0 \<Rightarrow>
          (case paths_loop rng junk x0 p [0..<nat (M p)] (g, \<Lambda>0) of
             (g', Inl e) \<Rightarrow> (g', Inl e)
           | (g', Inr \<Lambda>_vals) \<Rightarrow> (g', mean \<Lambda>_vals)))"

subsection \<open>The grid\<close>

text \<open>
  \<^verbatim>\<open>for i in prange(n)\<close>. The iterations are distributed over worker threads, and the
  generator state is one per thread. A schedule lists the iterations in the order in
  which they complete, each with the worker \<open>w\<close> that runs it; \<open>gs w\<close> is the generator
  state of worker \<open>w\<close>. Iteration \<open>i\<close> calls \<^verbatim>\<open>simulate_forward_sum_ave(x_vals[i])\<close>, that
  is with the default parameters, and writes \<^verbatim>\<open>v_vals[i]\<close>. The indices that
  \<^verbatim>\<open>prange(n)\<close> hands out are below \<open>n\<close>, so the read and the write are in range.
\<close>

fun prange_loop ::
  "'g generator \<Rightarrow> (nat \<Rightarrow> real) \<Rightarrow> real list \<Rightarrow> (nat \<times> nat) list \<Rightarrow> (nat \<Rightarrow> 'g) \<times> real list
     \<Rightarrow> (nat \<Rightarrow> 'g) \<times> (error + real list)" where
  "prange_loop rng junk x_vals [] (gs, v_vals) = (gs, Inr v_vals)"
| "prange_loop rng junk x_vals ((w, i) # sched) (gs, v_vals) =
     (case simulate_forward_sum_ave rng junk (gs w) (x_vals ! i) defaults of
        (g', Inl e) \<Rightarrow> (gs(w := g'), Inl e)
      | (g', Inr v) \<Rightarrow> prange_loop rng junk x_vals sched (gs(w := g'), v_vals[i := v]))"

definition compute_prices_across_states ::
  "'g generator \<Rightarrow> (nat \<Rightarrow> real) \<Rightarrow> (nat \<times> nat) list \<Rightarrow> (nat \<Rightarrow> 'g) \<Rightarrow> real list
     \<Rightarrow> (nat \<Rightarrow> 'g) \<times> (error + real list)" where
  "compute_prices_across_states rng junk sched gs x_vals =
     (let n = length x_vals in
      case np_empty junk (int n) of
        Inl e \<Rightarrow> (gs, Inl e)
      | Inr v_vals \<Rightarrow> prange_loop rng junk x_vals sched (gs, v_vals))"

text \<open>
  A schedule of \<^verbatim>\<open>prange(n)\<close> runs every index below \<open>n\<close> exactly once, in any order
  and on any workers.
\<close>

definition valid_schedule :: "(nat \<times> nat) list \<Rightarrow> nat \<Rightarrow> bool" where
  "valid_schedule sched n \<longleftrightarrow>
     distinct (map snd sched) \<and> set (map snd sched) = set [0..<n]"

subsection \<open>The estimator in the words of the specification\<close>

text \<open>
  The variates of one stream: \<open>draw rng g k\<close> is what the \<open>k\<close>-th call of \<^verbatim>\<open>randn()\<close>
  returns (counting from 0) when the generator starts in state \<open>g\<close>, and
  \<open>after_draws rng k g\<close> is the state after \<open>k\<close> calls.
\<close>

definition after_draws :: "'g generator \<Rightarrow> nat \<Rightarrow> 'g \<Rightarrow> 'g" where
  "after_draws rng k g = ((\<lambda>h. snd (randn rng h)) ^^ k) g"

definition draw :: "'g generator \<Rightarrow> 'g \<Rightarrow> nat \<Rightarrow> real" where
  "draw rng g k = fst (randn rng (after_draws rng k g))"

text \<open>
  Iteration \<open>t\<close> (from 1) takes the draws \<open>3 * (t - 1)\<close> (\<open>\<eta>\<^sub>c\<close>), \<open>3 * (t - 1) + 1\<close> (\<open>\<eta>\<^sub>d\<close>)
  and \<open>3 * (t - 1) + 2\<close> (\<open>\<xi>\<close>) of the stream. The state: \<open>x\<^sub>0\<close> given,
  \<open>x\<^sub>t = \<rho> x\<^sub>t\<^sub>-\<^sub>1 + \<sigma> \<xi>\<close>.
\<close>

fun x_seq :: "'g generator \<Rightarrow> params \<Rightarrow> 'g \<Rightarrow> real \<Rightarrow> nat \<Rightarrow> real" where
  "x_seq rng p g x0 0 = x0"
| "x_seq rng p g x0 (Suc t) = \<rho> p * x_seq rng p g x0 t + \<sigma> p * draw rng g (3 * t + 2)"

text \<open>The factor \<open>A\<^sub>t\<close>, for \<open>t\<close> from 1, from the state \<open>x\<^sub>t\<^sub>-\<^sub>1\<close>.\<close>

definition A_seq :: "'g generator \<Rightarrow> params \<Rightarrow> 'g \<Rightarrow> real \<Rightarrow> nat \<Rightarrow> real" where
  "A_seq rng p g x0 t =
     \<beta> p * exp (- \<gamma> p * \<mu>_c p + \<mu>_d p + (1 - \<gamma> p) * x_seq rng p g x0 (t - 1)
                 - \<gamma> p * \<sigma>_c p * draw rng g (3 * (t - 1))
                 + \<sigma>_d p * draw rng g (3 * (t - 1) + 1))"

text \<open>The path statistic of the path with seed \<open>m\<close>: the sum of the cumulative products.\<close>

definition path_statistic :: "'g generator \<Rightarrow> params \<Rightarrow> real \<Rightarrow> nat \<Rightarrow> real" where
  "path_statistic rng p x0 m =
     (\<Sum>n = 1..nat (N p). \<Prod>i = 1..n. A_seq rng p (seed rng m) x0 i)"

text \<open>The estimate at one state: the arithmetic mean over the seeds \<open>0..M-1\<close>.\<close>

definition estimate :: "'g generator \<Rightarrow> params \<Rightarrow> real \<Rightarrow> real" where
  "estimate rng p x0 = (\<Sum>m = 0..<nat (M p). path_statistic rng p x0 m) / real_of_int (M p)"

text \<open>
  Without shocks: the state \<open>x\<^sub>t = \<rho> x\<^sub>t\<^sub>-\<^sub>1\<close> from \<open>x\<^sub>0\<close>, and the closed form of the
  statistic.
\<close>

fun x_det :: "params \<Rightarrow> real \<Rightarrow> nat \<Rightarrow> real" where
  "x_det p x0 0 = x0"
| "x_det p x0 (Suc t) = \<rho> p * x_det p x0 t"

definition closed_form :: "params \<Rightarrow> real \<Rightarrow> real" where
  "closed_form p x0 =
     (\<Sum>n = 1..nat (N p). \<Prod>t = 1..n.
        \<beta> p * exp (- \<gamma> p * \<mu>_c p + \<mu>_d p + (1 - \<gamma> p) * x_det p x0 (t - 1)))"

subsection \<open>A generator to run the definitions on\<close>

text \<open>
  A counter: seeding with \<open>m\<close> sets it to \<open>10 * m\<close>, and every draw returns the counter
  and increments it.
\<close>

definition counter_rng :: "nat generator" where
  "counter_rng = \<lparr>seed = (\<lambda>m. 10 * m), randn = (\<lambda>g. (real g, Suc g))\<rparr>"

subsection \<open>The same code over floating-point values\<close>

text \<open>
  For what happens when a result leaves the floating-point range, the estimator is
  embedded a second time, over IEEE values: a finite number, plus or minus infinity, or
  not-a-number. The two zeros are one value \<open>Fin 0\<close>; they differ only under division by
  zero, which the code does not perform. An operation on finite operands computes the
  exact result and rounds it with \<open>rnd\<close>, which returns an infinity when the result is
  out of range; the format is not fixed here, so \<open>rnd\<close> is a parameter. The parameters
  of the model and the variates of the generator are finite.
\<close>

datatype fl = Fin real | PInf | NInf | NaN

definition nonfinite :: "fl \<Rightarrow> bool" where
  "nonfinite a = (case a of Fin x \<Rightarrow> False | PInf \<Rightarrow> True | NInf \<Rightarrow> True | NaN \<Rightarrow> True)"

fun fl_neg :: "fl \<Rightarrow> fl" where
  "fl_neg (Fin x) = Fin (- x)"
| "fl_neg PInf = NInf"
| "fl_neg NInf = PInf"
| "fl_neg NaN = NaN"

fun fl_add :: "(real \<Rightarrow> fl) \<Rightarrow> fl \<Rightarrow> fl \<Rightarrow> fl" where
  "fl_add rnd (Fin x) (Fin y) = rnd (x + y)"
| "fl_add rnd NaN b = NaN"
| "fl_add rnd a NaN = NaN"
| "fl_add rnd PInf NInf = NaN"
| "fl_add rnd NInf PInf = NaN"
| "fl_add rnd PInf b = PInf"
| "fl_add rnd a PInf = PInf"
| "fl_add rnd NInf b = NInf"
| "fl_add rnd a NInf = NInf"

definition fl_sub :: "(real \<Rightarrow> fl) \<Rightarrow> fl \<Rightarrow> fl \<Rightarrow> fl" where
  "fl_sub rnd a b = fl_add rnd a (fl_neg b)"

text \<open>An infinity times a number has the sign of the product; times zero it is not-a-number.\<close>

definition signed_inf :: "real \<Rightarrow> fl" where
  "signed_inf s = (if 0 < s then PInf else if s < 0 then NInf else NaN)"

fun fl_mul :: "(real \<Rightarrow> fl) \<Rightarrow> fl \<Rightarrow> fl \<Rightarrow> fl" where
  "fl_mul rnd (Fin x) (Fin y) = rnd (x * y)"
| "fl_mul rnd NaN b = NaN"
| "fl_mul rnd a NaN = NaN"
| "fl_mul rnd PInf (Fin y) = signed_inf y"
| "fl_mul rnd NInf (Fin y) = signed_inf (- y)"
| "fl_mul rnd (Fin x) PInf = signed_inf x"
| "fl_mul rnd (Fin x) NInf = signed_inf (- x)"
| "fl_mul rnd PInf PInf = PInf"
| "fl_mul rnd PInf NInf = NInf"
| "fl_mul rnd NInf PInf = NInf"
| "fl_mul rnd NInf NInf = PInf"

text \<open>\<^verbatim>\<open>np.exp\<close>: the exponential of minus infinity is 0.\<close>

fun fl_exp :: "(real \<Rightarrow> fl) \<Rightarrow> fl \<Rightarrow> fl" where
  "fl_exp rnd (Fin x) = rnd (exp x)"
| "fl_exp rnd PInf = PInf"
| "fl_exp rnd NInf = Fin 0"
| "fl_exp rnd NaN = NaN"

text \<open>Division by the size of a non-empty array, a positive integer.\<close>

fun fl_div_size :: "(real \<Rightarrow> fl) \<Rightarrow> fl \<Rightarrow> nat \<Rightarrow> fl" where
  "fl_div_size rnd (Fin x) k = rnd (x / real k)"
| "fl_div_size rnd PInf k = PInf"
| "fl_div_size rnd NInf k = NInf"
| "fl_div_size rnd NaN k = NaN"

definition np_empty_fl :: "(nat \<Rightarrow> fl) \<Rightarrow> int \<Rightarrow> error + fl list" where
  "np_empty_fl junk n = (if n < 0 then Inl ValueError else Inr (map junk [0..<nat n]))"

text \<open>
  \<^verbatim>\<open>a.mean()\<close>: the cells are added one after the other to an accumulator that starts at
  0, and the sum is divided by the size.
\<close>

definition mean_fl :: "(real \<Rightarrow> fl) \<Rightarrow> fl list \<Rightarrow> error + fl" where
  "mean_fl rnd a = (if length a = 0 then Inl MeanOfEmptyArray
                    else Inr (fl_div_size rnd (fold (\<lambda>v c. fl_add rnd c v) a (Fin 0)) (length a)))"

text \<open>\<^verbatim>\<open>t1 + t2\<close>, the argument of \<^verbatim>\<open>np.exp\<close>, with the operations in the order of the source.\<close>

definition exp_argument :: "(real \<Rightarrow> fl) \<Rightarrow> params \<Rightarrow> fl \<Rightarrow> real \<Rightarrow> real \<Rightarrow> fl" where
  "exp_argument rnd p x \<eta>_c \<eta>_d =
     (let t1 = fl_add rnd (fl_add rnd (fl_mul rnd (fl_neg (Fin (\<gamma> p))) (Fin (\<mu>_c p))) (Fin (\<mu>_d p)))
                          (fl_mul rnd (fl_sub rnd (Fin 1) (Fin (\<gamma> p))) x);
          t2 = fl_add rnd (fl_mul rnd (fl_mul rnd (fl_neg (Fin (\<gamma> p))) (Fin (\<sigma>_c p))) (Fin \<eta>_c))
                          (fl_mul rnd (Fin (\<sigma>_d p)) (Fin \<eta>_d))
      in fl_add rnd t1 t2)"

definition path_step_fl ::
  "(real \<Rightarrow> fl) \<Rightarrow> 'g generator \<Rightarrow> params \<Rightarrow> nat \<Rightarrow> 'g \<times> fl \<times> fl list \<Rightarrow> 'g \<times> fl \<times> fl list" where
  "path_step_fl rnd rng p t s =
     (case s of (g, x, A_path) \<Rightarrow>
        (case randn rng g of (\<eta>_c, g1) \<Rightarrow>
        (case randn rng g1 of (\<eta>_d, g2) \<Rightarrow>
           (let A_path' = A_path[t := fl_mul rnd (Fin (\<beta> p))
                                       (fl_exp rnd (exp_argument rnd p x \<eta>_c \<eta>_d))]
            in (case randn rng g2 of (\<xi>, g3) \<Rightarrow>
                  (g3, fl_add rnd (fl_mul rnd (Fin (\<rho> p)) x) (fl_mul rnd (Fin (\<sigma> p)) (Fin \<xi>)),
                   A_path'))))))"

definition forward_step_fl :: "(real \<Rightarrow> fl) \<Rightarrow> fl list \<Rightarrow> nat \<Rightarrow> fl \<times> fl \<Rightarrow> fl \<times> fl" where
  "forward_step_fl rnd A_path n s =
     (case s of (A_prod, \<Lambda>) \<Rightarrow>
        (let A_prod' = fl_mul rnd A_prod (A_path ! n) in (A_prod', fl_add rnd \<Lambda> A_prod')))"

definition simulate_path_fl ::
  "(real \<Rightarrow> fl) \<Rightarrow> 'g generator \<Rightarrow> (nat \<Rightarrow> fl) \<Rightarrow> 'g \<Rightarrow> fl \<Rightarrow> params \<Rightarrow> nat
     \<Rightarrow> 'g \<times> (error + fl)" where
  "simulate_path_fl rnd rng junk g x0 p m =
     (let g0 = seed rng m in
      case np_empty_fl junk (N p) of
        Inl e \<Rightarrow> (g0, Inl e)
      | Inr A0 \<Rightarrow>
          (case fold (path_step_fl rnd rng p) [0..<nat (N p)] (g0, x0, A0) of (g', x, A_path) \<Rightarrow>
          (case fold (forward_step_fl rnd A_path) [0..<nat (N p)] (Fin 1, Fin 0) of
             (A_prod, \<Lambda>) \<Rightarrow> (g', Inr \<Lambda>))))"

fun paths_loop_fl ::
  "(real \<Rightarrow> fl) \<Rightarrow> 'g generator \<Rightarrow> (nat \<Rightarrow> fl) \<Rightarrow> fl \<Rightarrow> params \<Rightarrow> nat list \<Rightarrow> 'g \<times> fl list
     \<Rightarrow> 'g \<times> (error + fl list)" where
  "paths_loop_fl rnd rng junk x0 p [] (g, \<Lambda>_vals) = (g, Inr \<Lambda>_vals)"
| "paths_loop_fl rnd rng junk x0 p (m # ms) (g, \<Lambda>_vals) =
     (case simulate_path_fl rnd rng junk g x0 p m of
        (g', Inl e) \<Rightarrow> (g', Inl e)
      | (g', Inr \<Lambda>) \<Rightarrow> paths_loop_fl rnd rng junk x0 p ms (g', \<Lambda>_vals[m := \<Lambda>]))"

definition simulate_forward_sum_ave_fl ::
  "(real \<Rightarrow> fl) \<Rightarrow> 'g generator \<Rightarrow> (nat \<Rightarrow> fl) \<Rightarrow> 'g \<Rightarrow> fl \<Rightarrow> params \<Rightarrow> 'g \<times> (error + fl)" where
  "simulate_forward_sum_ave_fl rnd rng junk g x0 p =
     (case np_empty_fl junk (M p) of
        Inl e \<Rightarrow> (g, Inl e)
      | Inr \<Lambda>0 \<Rightarrow>
          (case paths_loop_fl rnd rng junk x0 p [0..<nat (M p)] (g, \<Lambda>0) of
             (g', Inl e) \<Rightarrow> (g', Inl e)
           | (g', Inr \<Lambda>_vals) \<Rightarrow> (g', mean_fl rnd \<Lambda>_vals)))"

text \<open>
  The state \<^verbatim>\<open>x\<close> at the start of iteration \<open>t\<close> (from 0) of the path that starts in
  generator state \<open>g\<close>, and the argument that \<^verbatim>\<open>np.exp\<close> receives in that iteration.
\<close>

fun x_seq_fl :: "(real \<Rightarrow> fl) \<Rightarrow> 'g generator \<Rightarrow> params \<Rightarrow> 'g \<Rightarrow> fl \<Rightarrow> nat \<Rightarrow> fl" where
  "x_seq_fl rnd rng p g x0 0 = x0"
| "x_seq_fl rnd rng p g x0 (Suc t) =
     fl_add rnd (fl_mul rnd (Fin (\<rho> p)) (x_seq_fl rnd rng p g x0 t))
                (fl_mul rnd (Fin (\<sigma> p)) (Fin (draw rng g (3 * t + 2))))"

definition exp_argument_at ::
  "(real \<Rightarrow> fl) \<Rightarrow> 'g generator \<Rightarrow> params \<Rightarrow> 'g \<Rightarrow> fl \<Rightarrow> nat \<Rightarrow> fl" where
  "exp_argument_at rnd rng p g x0 t =
     exp_argument rnd p (x_seq_fl rnd rng p g x0 t) (draw rng g (3 * t)) (draw rng g (3 * t + 1))"

text \<open>
  The factor stored in \<^verbatim>\<open>A_path[t]\<close>, and the value \<^verbatim>\<open>\<Lambda>\<close> of the path with seed \<open>m\<close>: the
  forward loop run on the factors of that path.
\<close>

definition factor_at ::
  "(real \<Rightarrow> fl) \<Rightarrow> 'g generator \<Rightarrow> params \<Rightarrow> 'g \<Rightarrow> fl \<Rightarrow> nat \<Rightarrow> fl" where
  "factor_at rnd rng p g x0 t =
     fl_mul rnd (Fin (\<beta> p)) (fl_exp rnd (exp_argument_at rnd rng p g x0 t))"

definition path_value_fl :: "(real \<Rightarrow> fl) \<Rightarrow> 'g generator \<Rightarrow> params \<Rightarrow> fl \<Rightarrow> nat \<Rightarrow> fl" where
  "path_value_fl rnd rng p x0 m =
     snd (fold (forward_step_fl rnd (map (factor_at rnd rng p (seed rng m) x0) [0..<nat (N p)]))
            [0..<nat (N p)] (Fin 1, Fin 0))"

text \<open>
  A format to run the definitions on: the numbers from \<open>-21/2\<close> to \<open>21/2\<close>, all of them
  exact.
\<close>

definition small_rnd :: "real \<Rightarrow> fl" where
  "small_rnd r = (if 21 / 2 < r then PInf else if r < - (21 / 2) then NInf else Fin r)"

section \<open>What the loops compute\<close>

text \<open>
  The draws of a stream one after the other, the cell-by-cell filling of an array, the
  state of each loop after \<open>k\<close> iterations, and from these the value of each function
  of the notebook.
\<close>

lemma randn_after_draws:
  "randn rng (after_draws rng k g) = (draw rng g k, after_draws rng (Suc k) g)"
  by (simp add: draw_def after_draws_def)

lemma after_draws_0: "after_draws rng 0 g = g"
  by (simp add: after_draws_def)

lemma update_filled_prefix:
  assumes "k < length a" and "length xs = k"
  shows "(xs @ drop k a)[k := v] = (xs @ [v]) @ drop (Suc k) a"
proof -
  from assms(1) have "drop k a = a ! k # drop (Suc k) a"
    by (simp add: Cons_nth_drop_Suc)
  with assms(2) show ?thesis
    by (simp add: list_update_append)
qed

lemma path_step_at:
  "path_step rng p k (after_draws rng (3 * k) g0, x_seq rng p g0 x0 k, A) =
     (after_draws rng (3 * Suc k) g0, x_seq rng p g0 x0 (Suc k),
      A[k := A_seq rng p g0 x0 (Suc k)])"
proof -
  have three: "3 * Suc k = Suc (Suc (Suc (3 * k)))" by simp
  show ?thesis
    unfolding three
    by (simp add: path_step_def randn_after_draws A_seq_def Let_def algebra_simps)
qed

lemma path_loop_state:
  "k \<le> length A0 \<Longrightarrow>
   fold (path_step rng p) [0..<k] (g0, x0, A0) =
     (after_draws rng (3 * k) g0, x_seq rng p g0 x0 k,
      map (\<lambda>t. A_seq rng p g0 x0 (Suc t)) [0..<k] @ drop k A0)"
proof (induction k)
  case 0
  show ?case by (simp add: after_draws_0)
next
  case (Suc k)
  then have lt: "k < length A0" by simp
  have "fold (path_step rng p) [0..<Suc k] (g0, x0, A0) =
        path_step rng p k (fold (path_step rng p) [0..<k] (g0, x0, A0))"
    by simp
  also have "\<dots> = path_step rng p k (after_draws rng (3 * k) g0, x_seq rng p g0 x0 k,
      map (\<lambda>t. A_seq rng p g0 x0 (Suc t)) [0..<k] @ drop k A0)"
    using Suc by simp
  also have "\<dots> = (after_draws rng (3 * Suc k) g0, x_seq rng p g0 x0 (Suc k),
      (map (\<lambda>t. A_seq rng p g0 x0 (Suc t)) [0..<k] @ drop k A0)
        [k := A_seq rng p g0 x0 (Suc k)])"
    by (rule path_step_at)
  also have "(map (\<lambda>t. A_seq rng p g0 x0 (Suc t)) [0..<k] @ drop k A0)
        [k := A_seq rng p g0 x0 (Suc k)] =
      map (\<lambda>t. A_seq rng p g0 x0 (Suc t)) [0..<Suc k] @ drop (Suc k) A0"
    using update_filled_prefix [OF lt, of "map (\<lambda>t. A_seq rng p g0 x0 (Suc t)) [0..<k]"]
    by simp
  finally show ?case .
qed

lemma forward_loop_state:
  "k \<le> length A \<Longrightarrow>
   fold (forward_step A) [0..<k] (1, 0) =
     (\<Prod>i = 1..k. A ! (i - 1), \<Sum>n = 1..k. \<Prod>i = 1..n. A ! (i - 1))"
proof (induction k)
  case 0
  show ?case by simp
next
  case (Suc k)
  then show ?case
    by (simp add: forward_step_def Let_def)
qed


lemma simulate_path_neg:
  "N p < 0 \<Longrightarrow> simulate_path rng junk g x0 p m = (seed rng m, Inl ValueError)"
  by (simp add: simulate_path_def np_empty_def)

lemma simulate_path_eq:
  assumes "0 \<le> N p"
  shows "simulate_path rng junk g x0 p m =
           (after_draws rng (3 * nat (N p)) (seed rng m), Inr (path_statistic rng p x0 m))"
proof -
  define n where "n = nat (N p)"
  define A where "A = map (\<lambda>t. A_seq rng p (seed rng m) x0 (Suc t)) [0..<n]"
  have alloc: "np_empty junk (N p) = Inr (map junk [0..<n])"
    using assms by (simp add: np_empty_def n_def)
  have fill: "fold (path_step rng p) [0..<n] (seed rng m, x0, map junk [0..<n]) =
        (after_draws rng (3 * n) (seed rng m), x_seq rng p (seed rng m) x0 n, A)"
    using path_loop_state [of n "map junk [0..<n]" rng p "seed rng m" x0]
    by (simp add: A_def)
  have cell: "A ! (i - Suc 0) = A_seq rng p (seed rng m) x0 i" if "Suc 0 \<le> i" "i \<le> n" for i
  proof -
    from that have "i - Suc 0 < n" and "Suc (i - Suc 0) = i" by auto
    then show ?thesis by (simp add: A_def)
  qed
  have prods: "(\<Prod>i = Suc 0..k. A ! (i - Suc 0)) = (\<Prod>i = Suc 0..k. A_seq rng p (seed rng m) x0 i)"
    if "k \<le> n" for k
    using that by (intro prod.cong) (simp_all add: cell)
  have "fold (forward_step A) [0..<n] (1, 0) =
        (\<Prod>i = 1..n. A ! (i - 1), \<Sum>k = 1..n. \<Prod>i = 1..k. A ! (i - 1))"
    by (rule forward_loop_state) (simp add: A_def)
  also have "(\<Sum>k = 1..n. \<Prod>i = 1..k. A ! (i - 1)) = path_statistic rng p x0 m"
    unfolding path_statistic_def n_def [symmetric]
    by (rule sum.cong) (simp_all add: prods)
  finally have forward: "fold (forward_step A) [0..<n] (1, 0) =
        (\<Prod>i = 1..n. A ! (i - 1), path_statistic rng p x0 m)" .
  show ?thesis
    unfolding simulate_path_def Let_def alloc n_def [symmetric]
    by (simp add: fill forward)
qed

lemma paths_loop_eq:
  "0 \<le> N p \<Longrightarrow>
   paths_loop rng junk x0 p ms (g, a) =
     (fold (\<lambda>m h. after_draws rng (3 * nat (N p)) (seed rng m)) ms g,
      Inr (fold (\<lambda>m a. a[m := path_statistic rng p x0 m]) ms a))"
  by (induction ms arbitrary: g a) (simp_all add: simulate_path_eq)

lemma paths_loop_neg:
  "N p < 0 \<Longrightarrow> paths_loop rng junk x0 p (m # ms) (g, a) = (seed rng m, Inl ValueError)"
  by (simp add: simulate_path_neg)

lemma fill_upt:
  "k \<le> length a \<Longrightarrow> fold (\<lambda>m a. a[m := f m]) [0..<k] a = map f [0..<k] @ drop k a"
proof (induction k)
  case 0
  show ?case by simp
next
  case (Suc k)
  then have lt: "k < length a" by simp
  with Suc show ?case
    using update_filled_prefix [OF lt, of "map f [0..<k]" "f k"] by simp
qed

lemma fill_length: "length (fold (\<lambda>i a. a[i := f i]) js a) = length a"
  by (induction js arbitrary: a) simp_all

lemma fill_untouched: "i \<notin> set js \<Longrightarrow> fold (\<lambda>i a. a[i := f i]) js a ! i = a ! i"
  by (induction js arbitrary: a) auto

lemma fill_written:
  "i \<in> set js \<Longrightarrow> i < length a \<Longrightarrow> fold (\<lambda>i a. a[i := f i]) js a ! i = f i"
proof (induction js arbitrary: a)
  case Nil
  then show ?case by simp
next
  case (Cons j js)
  show ?case
  proof (cases "i \<in> set js")
    case True
    with Cons show ?thesis by simp
  next
    case False
    with Cons.prems have "i = j" by simp
    with False Cons.prems show ?thesis by (simp add: fill_untouched)
  qed
qed

lemma fill_any_order:
  assumes "set js = set [0..<n]" and "length a = n"
  shows "fold (\<lambda>i a. a[i := f i]) js a = map f [0..<n]"
proof (rule nth_equalityI)
  show "length (fold (\<lambda>i a. a[i := f i]) js a) = length (map f [0..<n])"
    using assms by (simp add: fill_length)
next
  fix i
  assume "i < length (fold (\<lambda>i a. a[i := f i]) js a)"
  then have "i < n" using assms by (simp add: fill_length)
  then show "fold (\<lambda>i a. a[i := f i]) js a ! i = map f [0..<n] ! i"
    using assms by (simp add: fill_written)
qed

lemma last_seed_state:
  "0 < k \<Longrightarrow> fold (\<lambda>m h. F m) [0..<k] g = F (k - 1)"
  by (cases k) simp_all

lemma mean_map_upt:
  "0 < k \<Longrightarrow> mean (map f [0..<k]) = Inr ((\<Sum>m = 0..<k. f m) / real k)"
  by (simp add: mean_def interv_sum_list_conv_sum_set_nat)

lemma sfsa_eq:
  assumes "0 \<le> N p" and "0 < M p"
  shows "simulate_forward_sum_ave rng junk g x0 p =
           (after_draws rng (3 * nat (N p)) (seed rng (nat (M p) - 1)),
            Inr (estimate rng p x0))"
proof -
  define k where "k = nat (M p)"
  have k: "0 < k" "real k = real_of_int (M p)" using assms(2) by (simp_all add: k_def)
  have alloc: "np_empty junk (M p) = Inr (map junk [0..<k])"
    using assms(2) by (simp add: np_empty_def k_def)
  have vals: "fold (\<lambda>m a. a[m := path_statistic rng p x0 m]) [0..<k] (map junk [0..<k]) =
        map (path_statistic rng p x0) [0..<k]"
    using fill_upt [of k "map junk [0..<k]" "path_statistic rng p x0"] by simp
  show ?thesis
    unfolding simulate_forward_sum_ave_def alloc k_def [symmetric]
    using k
    by (simp add: paths_loop_eq [OF assms(1)] vals last_seed_state mean_map_upt estimate_def
        k_def [symmetric])
qed

lemma sfsa_defaults:
  "snd (simulate_forward_sum_ave rng junk g x0 defaults) = Inr (estimate rng defaults x0)"
  by (simp add: sfsa_eq defaults_def)

lemma prange_loop_snd:
  "snd (prange_loop rng junk x_vals sched (gs, a)) =
     Inr (fold (\<lambda>i a. a[i := estimate rng defaults (x_vals ! i)]) (map snd sched) a)"
proof (induction sched arbitrary: gs a)
  case Nil
  show ?case by simp
next
  case (Cons wi sched)
  obtain w i where wi: "wi = (w, i)" by (cases wi)
  obtain g' where call: "simulate_forward_sum_ave rng junk (gs w) (x_vals ! i) defaults =
      (g', Inr (estimate rng defaults (x_vals ! i)))"
    using sfsa_defaults [of rng junk "gs w" "x_vals ! i"]
    by (cases "simulate_forward_sum_ave rng junk (gs w) (x_vals ! i) defaults") simp
  show ?case
    by (simp add: wi call Cons.IH)
qed

lemma compute_prices_snd:
  assumes "valid_schedule sched (length x_vals)"
  shows "snd (compute_prices_across_states rng junk sched gs x_vals) =
           Inr (map (estimate rng defaults) x_vals)"
proof -
  have "fold (\<lambda>i a. a[i := estimate rng defaults (x_vals ! i)]) (map snd sched)
          (map junk [0..<length x_vals]) =
        map (\<lambda>i. estimate rng defaults (x_vals ! i)) [0..<length x_vals]"
    using assms by (intro fill_any_order) (simp_all add: valid_schedule_def)
  also have "\<dots> = map (estimate rng defaults) x_vals"
    by (rule nth_equalityI) simp_all
  finally show ?thesis
    by (simp add: compute_prices_across_states_def np_empty_def prange_loop_snd)
qed


lemma after_draws_counter: "after_draws counter_rng k g = g + k"
  by (induction k) (simp_all add: after_draws_def counter_rng_def)

lemma valid_schedule_empty: "valid_schedule sched 0 \<Longrightarrow> sched = []"
  by (simp add: valid_schedule_def)

lemma x_seq_no_shock: "\<sigma> p = 0 \<Longrightarrow> x_seq rng p g x0 t = x_det p x0 t"
  by (induction t) simp_all

lemma path_statistic_no_shock:
  assumes "\<sigma> p = 0" and "\<sigma>_c p = 0" and "\<sigma>_d p = 0"
  shows "path_statistic rng p x0 m = closed_form p x0"
  using assms by (simp add: path_statistic_def closed_form_def A_seq_def x_seq_no_shock)

lemma estimate_constant:
  assumes "0 < M p" and "\<And>m. path_statistic rng p x0 m = c"
  shows "estimate rng p x0 = c"
  using assms by (simp add: estimate_def)

lemma seed_counter: "seed counter_rng m = 10 * m"
  by (simp add: counter_rng_def)

section \<open>Non-finite values in the floating-point embedding\<close>

text \<open>
  An infinity or a not-a-number is absorbing for the sum, the product and the division by
  a size; the loops over IEEE values compute the factors, the running products and their
  sum cell by cell as the loops over the reals do.
\<close>

lemma nonfinite_simps [simp]:
  "\<not> nonfinite (Fin x)" "nonfinite PInf" "nonfinite NInf" "nonfinite NaN"
  by (simp_all add: nonfinite_def)

lemma nonfinite_signed_inf: "nonfinite (signed_inf s)"
  by (simp add: signed_inf_def)

lemma nonfinite_mul_left: "nonfinite a \<Longrightarrow> nonfinite (fl_mul rnd a b)"
  by (cases a; cases b) (simp_all add: nonfinite_signed_inf)

lemma nonfinite_mul_right: "nonfinite b \<Longrightarrow> nonfinite (fl_mul rnd a b)"
  by (cases a; cases b) (simp_all add: nonfinite_signed_inf)

lemma nonfinite_add_left: "nonfinite a \<Longrightarrow> nonfinite (fl_add rnd a b)"
  by (cases a; cases b) simp_all

lemma nonfinite_add_right: "nonfinite b \<Longrightarrow> nonfinite (fl_add rnd a b)"
  by (cases a; cases b) simp_all

lemma nonfinite_div_size: "nonfinite a \<Longrightarrow> nonfinite (fl_div_size rnd a k)"
  by (cases a) simp_all


lemma path_step_fl_at:
  "path_step_fl rnd rng p k (after_draws rng (3 * k) g0, x_seq_fl rnd rng p g0 x0 k, A) =
     (after_draws rng (3 * Suc k) g0, x_seq_fl rnd rng p g0 x0 (Suc k),
      A[k := factor_at rnd rng p g0 x0 k])"
proof -
  have three: "3 * Suc k = Suc (Suc (Suc (3 * k)))" by simp
  show ?thesis
    unfolding three
    by (simp add: path_step_fl_def randn_after_draws factor_at_def exp_argument_at_def Let_def)
qed

lemma path_loop_state_fl:
  "k \<le> length A0 \<Longrightarrow>
   fold (path_step_fl rnd rng p) [0..<k] (g0, x0, A0) =
     (after_draws rng (3 * k) g0, x_seq_fl rnd rng p g0 x0 k,
      map (factor_at rnd rng p g0 x0) [0..<k] @ drop k A0)"
proof (induction k)
  case 0
  show ?case by (simp add: after_draws_0)
next
  case (Suc k)
  then have lt: "k < length A0" by simp
  have "fold (path_step_fl rnd rng p) [0..<Suc k] (g0, x0, A0) =
        path_step_fl rnd rng p k (fold (path_step_fl rnd rng p) [0..<k] (g0, x0, A0))"
    by simp
  also have "\<dots> = path_step_fl rnd rng p k (after_draws rng (3 * k) g0,
      x_seq_fl rnd rng p g0 x0 k, map (factor_at rnd rng p g0 x0) [0..<k] @ drop k A0)"
    using Suc by simp
  also have "\<dots> = (after_draws rng (3 * Suc k) g0, x_seq_fl rnd rng p g0 x0 (Suc k),
      (map (factor_at rnd rng p g0 x0) [0..<k] @ drop k A0)[k := factor_at rnd rng p g0 x0 k])"
    by (rule path_step_fl_at)
  also have "(map (factor_at rnd rng p g0 x0) [0..<k] @ drop k A0)
        [k := factor_at rnd rng p g0 x0 k] =
      map (factor_at rnd rng p g0 x0) [0..<Suc k] @ drop (Suc k) A0"
    using update_filled_prefix [OF lt, of "map (factor_at rnd rng p g0 x0) [0..<k]"]
    by simp
  finally show ?case .
qed

lemma forward_loop_poisoned:
  "t < k \<Longrightarrow> nonfinite (A ! t) \<Longrightarrow>
   nonfinite (fst (fold (forward_step_fl rnd A) [0..<k] s)) \<and>
   nonfinite (snd (fold (forward_step_fl rnd A) [0..<k] s))"
proof (induction k)
  case 0
  then show ?case by simp
next
  case (Suc k)
  obtain A_prod \<Lambda> where st: "fold (forward_step_fl rnd A) [0..<k] s = (A_prod, \<Lambda>)"
    by (cases "fold (forward_step_fl rnd A) [0..<k] s")
  have "nonfinite (fl_mul rnd A_prod (A ! k))"
  proof (cases "t = k")
    case True
    with Suc.prems show ?thesis by (simp add: nonfinite_mul_right)
  next
    case False
    with Suc.prems have "t < k" by simp
    with Suc st have "nonfinite A_prod" by simp
    then show ?thesis by (rule nonfinite_mul_left)
  qed
  moreover have "fold (forward_step_fl rnd A) [0..<Suc k] s =
      (fl_mul rnd A_prod (A ! k), fl_add rnd \<Lambda> (fl_mul rnd A_prod (A ! k)))"
    by (simp add: st) (simp add: forward_step_fl_def Let_def)
  ultimately show ?case
    by (simp add: nonfinite_add_right)
qed

lemma simulate_path_fl_eq:
  assumes "0 \<le> N p"
  shows "simulate_path_fl rnd rng junk g x0 p m =
           (after_draws rng (3 * nat (N p)) (seed rng m), Inr (path_value_fl rnd rng p x0 m))"
proof -
  define n where "n = nat (N p)"
  have alloc: "np_empty_fl junk (N p) = Inr (map junk [0..<n])"
    using assms by (simp add: np_empty_fl_def n_def)
  have fill: "fold (path_step_fl rnd rng p) [0..<n] (seed rng m, x0, map junk [0..<n]) =
        (after_draws rng (3 * n) (seed rng m), x_seq_fl rnd rng p (seed rng m) x0 n,
         map (factor_at rnd rng p (seed rng m) x0) [0..<n])"
    using path_loop_state_fl [of n "map junk [0..<n]" rnd rng p "seed rng m" x0] by simp
  show ?thesis
    unfolding simulate_path_fl_def Let_def alloc n_def [symmetric]
    by (simp add: fill path_value_fl_def n_def [symmetric] split: prod.splits)
qed

lemma path_value_poisoned:
  assumes "t < nat (N p)" and "nonfinite (fl_exp rnd (exp_argument_at rnd rng p (seed rng m) x0 t))"
  shows "nonfinite (path_value_fl rnd rng p x0 m)"
proof -
  have "nonfinite (map (factor_at rnd rng p (seed rng m) x0) [0..<nat (N p)] ! t)"
    using assms by (simp add: factor_at_def nonfinite_mul_right)
  with assms(1) show ?thesis
    unfolding path_value_fl_def by (simp add: forward_loop_poisoned)
qed

lemma paths_loop_fl_eq:
  "0 \<le> N p \<Longrightarrow>
   paths_loop_fl rnd rng junk x0 p ms (g, a) =
     (fold (\<lambda>m h. after_draws rng (3 * nat (N p)) (seed rng m)) ms g,
      Inr (fold (\<lambda>m a. a[m := path_value_fl rnd rng p x0 m]) ms a))"
  by (induction ms arbitrary: g a) (simp_all add: simulate_path_fl_eq)

lemma sum_poisoned_acc:
  "nonfinite c \<Longrightarrow> nonfinite (fold (\<lambda>v c. fl_add rnd c v) a c)"
  by (induction a arbitrary: c) (simp_all add: nonfinite_add_left)

lemma sum_poisoned:
  "x \<in> set a \<Longrightarrow> nonfinite x \<Longrightarrow> nonfinite (fold (\<lambda>v c. fl_add rnd c v) a c)"
proof (induction a arbitrary: c)
  case Nil
  then show ?case by simp
next
  case (Cons y a)
  show ?case
  proof (cases "x = y")
    case True
    with Cons.prems have "nonfinite (fl_add rnd c y)" by (simp add: nonfinite_add_right)
    then show ?thesis by (simp add: sum_poisoned_acc)
  next
    case False
    with Cons show ?thesis by simp
  qed
qed

lemma mean_fl_poisoned:
  assumes "m < length a" and "nonfinite (a ! m)"
  shows "\<exists>v. mean_fl rnd a = Inr v \<and> nonfinite v"
proof -
  from assms have "nonfinite (fold (\<lambda>v c. fl_add rnd c v) a (Fin 0))"
    by (intro sum_poisoned [of "a ! m"]) simp_all
  with assms(1) show ?thesis
    by (auto simp: mean_fl_def nonfinite_div_size)
qed

lemma sfsa_fl_eq:
  assumes "0 \<le> N p" and "0 < M p"
  shows "snd (simulate_forward_sum_ave_fl rnd rng junk g x0 p) =
           mean_fl rnd (map (path_value_fl rnd rng p x0) [0..<nat (M p)])"
proof -
  define k where "k = nat (M p)"
  have alloc: "np_empty_fl junk (M p) = Inr (map junk [0..<k])"
    using assms(2) by (simp add: np_empty_fl_def k_def)
  have vals: "fold (\<lambda>m a. a[m := path_value_fl rnd rng p x0 m]) [0..<k] (map junk [0..<k]) =
        map (path_value_fl rnd rng p x0) [0..<k]"
    using fill_upt [of k "map junk [0..<k]" "path_value_fl rnd rng p x0"] by simp
  show ?thesis
    unfolding simulate_forward_sum_ave_fl_def alloc k_def [symmetric]
    by (simp add: paths_loop_fl_eq [OF assms(1)] vals)
qed

lemma nonfinite_iff: "nonfinite a \<longleftrightarrow> a = PInf \<or> a = NInf \<or> a = NaN"
  by (cases a) simp_all

lemma draw_counter: "draw counter_rng g k = real (g + k)"
  by (simp add: draw_def after_draws_counter) (simp add: counter_rng_def)

section \<open>Properties of the estimator\<close>

subsection \<open>The grid estimator\<close>

text \<open>
  C1. For a non-empty grid and any schedule of the parallel loop (any completion order, any
  assignment of iterations to workers, any generator states of the workers), the grid
  estimator returns a sequence of the length of the grid whose element \<open>i\<close> is the
  arithmetic mean, the sum divided by the number, of the \<open>M\<close> values that the path
  simulator returns for \<open>x0 = x_vals ! i\<close> and the seeds \<open>0..M-1\<close>, in whatever state the
  simulator is called.
\<close>

theorem grid_estimator_mean_per_point:
  assumes "x_vals \<noteq> []" and "valid_schedule sched (length x_vals)"
  shows "\<exists>v_vals. snd (compute_prices_across_states rng junk sched gs x_vals) = Inr v_vals \<and>
           length v_vals = length x_vals \<and>
           (\<forall>i<length x_vals. \<exists>\<Lambda>_vals.
              length \<Lambda>_vals = nat (M defaults) \<and>
              (\<forall>m<nat (M defaults).
                 snd (simulate_path rng junk' g' (x_vals ! i) defaults m) = Inr (\<Lambda>_vals ! m)) \<and>
              v_vals ! i = sum_list \<Lambda>_vals / real (length \<Lambda>_vals))"
proof -
  define k where "k = nat (M defaults)"
  have k: "0 < k" "real k = real_of_int (M defaults)" by (simp_all add: k_def defaults_def)
  have len: "0 \<le> N defaults" by (simp add: defaults_def)
  have point: "\<exists>\<Lambda>_vals. length \<Lambda>_vals = k \<and>
      (\<forall>m<k. snd (simulate_path rng junk' g' x0 defaults m) = Inr (\<Lambda>_vals ! m)) \<and>
      estimate rng defaults x0 = sum_list \<Lambda>_vals / real (length \<Lambda>_vals)" for x0
  proof (intro exI conjI)
    show "length (map (path_statistic rng defaults x0) [0..<k]) = k" by simp
    show "\<forall>m<k. snd (simulate_path rng junk' g' x0 defaults m) =
        Inr (map (path_statistic rng defaults x0) [0..<k] ! m)"
      using len by (simp add: simulate_path_eq)
    show "estimate rng defaults x0 =
        sum_list (map (path_statistic rng defaults x0) [0..<k]) /
        real (length (map (path_statistic rng defaults x0) [0..<k]))"
      using k by (simp add: estimate_def interv_sum_list_conv_sum_set_nat k_def [symmetric])
  qed
  show ?thesis
    unfolding k_def [symmetric]
    using compute_prices_snd [OF assms(2), of rng junk gs] point by simp
qed

text \<open>
  An instance: a grid of two points, completed in reverse order by two workers.
\<close>

theorem grid_estimator_mean_per_point_witness:
  "[0, 1 / 10] \<noteq> ([] :: real list) \<and> valid_schedule [(1, 1), (0, 0)] (length [0 :: real, 1 / 10]) \<and>
   (\<exists>v_vals. snd (compute_prices_across_states counter_rng (\<lambda>c. 0) [(1, 1), (0, 0)] (\<lambda>w. 0)
                     [0, 1 / 10]) = Inr v_vals \<and>
      length v_vals = length [0 :: real, 1 / 10] \<and>
      (\<forall>i<length [0 :: real, 1 / 10]. \<exists>\<Lambda>_vals.
         length \<Lambda>_vals = nat (M defaults) \<and>
         (\<forall>m<nat (M defaults).
            snd (simulate_path counter_rng (\<lambda>c. 1) 5 ([0, 1 / 10] ! i) defaults m) =
              Inr (\<Lambda>_vals ! m)) \<and>
         v_vals ! i = sum_list \<Lambda>_vals / real (length \<Lambda>_vals)))"
proof -
  have grid: "[0, 1 / 10] \<noteq> ([] :: real list)" by simp
  have sched: "valid_schedule [(1, 1), (0, 0)] (length [0 :: real, 1 / 10])"
    by (auto simp: valid_schedule_def)
  show ?thesis
    using grid sched
      grid_estimator_mean_per_point [OF grid sched, of counter_rng "\<lambda>c. 0" "\<lambda>w. 0" "\<lambda>c. 1" 5]
    by blast
qed

text \<open>
  C7. On the empty grid the grid estimator returns the empty sequence and no error, and
  the generator state of every worker is what it was: no path was simulated, since every
  path starts by reseeding.
\<close>

theorem empty_grid_empty_result:
  assumes "valid_schedule sched (length ([] :: real list))"
  shows "compute_prices_across_states rng junk sched gs [] = (gs, Inr [])"
proof -
  from assms have "sched = []" by (simp add: valid_schedule_empty)
  then show ?thesis
    by (simp add: compute_prices_across_states_def np_empty_def)
qed

text \<open>
  An instance: the only schedule of an empty loop.
\<close>

theorem empty_grid_empty_result_witness:
  "valid_schedule [] (length ([] :: real list)) \<and>
   compute_prices_across_states counter_rng (\<lambda>c. 0) [] (\<lambda>w. 7) [] = (\<lambda>w. 7, Inr [])"
proof -
  have h: "valid_schedule [] (length ([] :: real list))" by (simp add: valid_schedule_def)
  show ?thesis
    using h empty_grid_empty_result [OF h, of counter_rng "\<lambda>c. 0" "\<lambda>w. 7"] by blast
qed

text \<open>
  C9. The grid estimator has no parameter argument: for every grid, element \<open>i\<close> of its
  result is what \<^verbatim>\<open>simulate_forward_sum_ave\<close> returns at \<open>x_vals ! i\<close> with
  \<open>\<beta> = 0.96\<close>, \<open>\<gamma> = 2.0\<close>, \<open>\<rho> = 0.9\<close>, \<open>\<sigma> = 0.05\<close>, \<open>\<mu>_d = 0.01\<close>, \<open>\<sigma>_d = 0.01\<close>,
  \<open>\<mu>_c = 0.05\<close>, \<open>\<sigma>_c = 0.01\<close>, \<open>N = 1000\<close> and \<open>M = 20000\<close>.
\<close>

theorem grid_uses_default_parameters:
  assumes "valid_schedule sched (length x_vals)" and "i < length x_vals"
  shows "\<exists>v_vals. snd (compute_prices_across_states rng junk sched gs x_vals) = Inr v_vals \<and>
           snd (simulate_forward_sum_ave rng junk' g' (x_vals ! i)
                  \<lparr>\<beta> = 0.96, \<gamma> = 2.0, \<rho> = 0.9, \<sigma> = 0.05, \<mu>_d = 0.01, \<sigma>_d = 0.01,
                   \<mu>_c = 0.05, \<sigma>_c = 0.01, N = 1000, M = 20000\<rparr>) = Inr (v_vals ! i)"
  using assms compute_prices_snd [OF assms(1), of rng junk gs]
    sfsa_defaults [of rng junk' g' "x_vals ! i"]
  by (simp add: defaults_def)

text \<open>
  An instance: the second point of a grid of two.
\<close>

theorem grid_uses_default_parameters_witness:
  "valid_schedule [(0, 0), (0, 1)] (length [0 :: real, 1 / 10]) \<and> 1 < length [0 :: real, 1 / 10] \<and>
   (\<exists>v_vals. snd (compute_prices_across_states counter_rng (\<lambda>c. 0) [(0, 0), (0, 1)] (\<lambda>w. 7)
                     [0, 1 / 10]) = Inr v_vals \<and>
      snd (simulate_forward_sum_ave counter_rng (\<lambda>c. 1) 8 ([0, 1 / 10] ! 1)
             \<lparr>\<beta> = 0.96, \<gamma> = 2.0, \<rho> = 0.9, \<sigma> = 0.05, \<mu>_d = 0.01, \<sigma>_d = 0.01,
              \<mu>_c = 0.05, \<sigma>_c = 0.01, N = 1000, M = 20000\<rparr>) = Inr (v_vals ! 1))"
proof -
  have sched: "valid_schedule [(0, 0), (0, 1)] (length [0 :: real, 1 / 10])"
    by (auto simp: valid_schedule_def)
  have i: "1 < length [0 :: real, 1 / 10]" by simp
  show ?thesis
    using sched i
      grid_uses_default_parameters [OF sched i, of counter_rng "\<lambda>c. 0" "\<lambda>w. 7" "\<lambda>c. 1" 8]
    by blast
qed

text \<open>
  C10. Every grid point is estimated from the streams of the same seeds \<open>0..M-1\<close>: element
  \<open>i\<close> is the mean over these seeds of the path statistic started at \<open>x_vals ! i\<close>, and
  two indices that hold the same state value get exactly the same estimate.
\<close>

theorem common_random_numbers:
  assumes "valid_schedule sched (length x_vals)"
    and "i < length x_vals" and "j < length x_vals" and "x_vals ! i = x_vals ! j"
  shows "\<exists>v_vals. snd (compute_prices_across_states rng junk sched gs x_vals) = Inr v_vals \<and>
           v_vals ! i = v_vals ! j \<and>
           v_vals ! i = (\<Sum>m = 0..<nat (M defaults). path_statistic rng defaults (x_vals ! i) m)
                        / real_of_int (M defaults) \<and>
           v_vals ! j = (\<Sum>m = 0..<nat (M defaults). path_statistic rng defaults (x_vals ! j) m)
                        / real_of_int (M defaults)"
  using assms compute_prices_snd [OF assms(1), of rng junk gs]
  by (simp add: estimate_def)

text \<open>
  An instance: a grid whose first and third points coincide.
\<close>

theorem common_random_numbers_witness:
  "valid_schedule [(1, 2), (0, 0), (1, 1)] (length [1 / 10, 0, 1 / 10 :: real]) \<and>
   0 < length [1 / 10, 0, 1 / 10 :: real] \<and> 2 < length [1 / 10, 0, 1 / 10 :: real] \<and>
   [1 / 10, 0, 1 / 10 :: real] ! 0 = [1 / 10, 0, 1 / 10] ! 2 \<and>
   (\<exists>v_vals. snd (compute_prices_across_states counter_rng (\<lambda>c. 0) [(1, 2), (0, 0), (1, 1)]
                     (\<lambda>w. 7) [1 / 10, 0, 1 / 10]) = Inr v_vals \<and>
      v_vals ! 0 = v_vals ! 2)"
proof -
  have sched: "valid_schedule [(1, 2), (0, 0), (1, 1)] (length [1 / 10, 0, 1 / 10 :: real])"
    by (auto simp: valid_schedule_def)
  have i: "0 < length [1 / 10, 0, 1 / 10 :: real]" and j: "2 < length [1 / 10, 0, 1 / 10 :: real]"
    and eq: "[1 / 10, 0, 1 / 10 :: real] ! 0 = [1 / 10, 0, 1 / 10] ! 2"
    by simp_all
  show ?thesis
    using sched i j eq
      common_random_numbers [OF sched i j eq, of counter_rng "\<lambda>c. 0" "\<lambda>w. 7"]
    by blast
qed

subsection \<open>The path simulator\<close>

text \<open>
  C2. For a path length \<open>N \<ge> 0\<close> the path with seed \<open>m\<close> returns the sum over
  \<open>n = 1..N\<close> of the products \<open>A\<^sub>1 \<cdots> A\<^sub>n\<close>, where \<open>A\<^sub>t\<close> is computed from the state
  \<open>x\<^sub>t\<^sub>-\<^sub>1\<close> of the previous iteration and the first two draws of iteration \<open>t\<close>, and the
  state is updated afterwards from the third draw: \<open>x\<^sub>t = \<rho> x\<^sub>t\<^sub>-\<^sub>1 + \<sigma> \<xi>\<close>.
\<close>

theorem path_statistic_from_previous_state:
  assumes "0 \<le> N p"
  shows "snd (simulate_path rng junk g x0 p m) =
           Inr (\<Sum>n = 1..nat (N p). \<Prod>t = 1..n. A_seq rng p (seed rng m) x0 t) \<and>
         (\<forall>t. A_seq rng p (seed rng m) x0 (Suc t) =
            \<beta> p * exp (- \<gamma> p * \<mu>_c p + \<mu>_d p + (1 - \<gamma> p) * x_seq rng p (seed rng m) x0 t
                        - \<gamma> p * \<sigma>_c p * draw rng (seed rng m) (3 * t)
                        + \<sigma>_d p * draw rng (seed rng m) (3 * t + 1))) \<and>
         x_seq rng p (seed rng m) x0 0 = x0 \<and>
         (\<forall>t. x_seq rng p (seed rng m) x0 (Suc t) =
            \<rho> p * x_seq rng p (seed rng m) x0 t + \<sigma> p * draw rng (seed rng m) (3 * t + 2))"
  using assms by (simp add: simulate_path_eq path_statistic_def A_seq_def)

text \<open>
  An instance: the default parameters, seed 3.
\<close>

theorem path_statistic_from_previous_state_witness:
  "0 \<le> N defaults \<and>
   snd (simulate_path counter_rng (\<lambda>c. 0) 7 (1 / 10) defaults 3) =
     Inr (\<Sum>n = 1..nat (N defaults). \<Prod>t = 1..n. A_seq counter_rng defaults (seed counter_rng 3) (1 / 10) t)"
proof -
  have h: "0 \<le> N defaults" by (simp add: defaults_def)
  show ?thesis
    using h path_statistic_from_previous_state [OF h, of counter_rng "\<lambda>c. 0" 7 "1 / 10" 3]
    by blast
qed

text \<open>
  C4. The value of a path is determined by \<open>x0\<close>, the parameters and the seed: two
  calls return the same value, whatever the generator state and the contents of fresh
  arrays are at either call.
\<close>

theorem path_value_independent_of_prior_state:
  "snd (simulate_path rng junk g x0 p m) = snd (simulate_path rng junk' g' x0 p m)"
proof (cases "N p < 0")
  case True
  then show ?thesis by (simp add: simulate_path_neg)
next
  case False
  then show ?thesis by (simp add: simulate_path_eq)
qed

text \<open>
  C5. With \<open>\<sigma> = \<sigma>_c = \<sigma>_d = 0\<close>, every path at \<open>x0\<close> returns the closed form, in which
  the state evolves as \<open>x\<^sub>t = \<rho> x\<^sub>t\<^sub>-\<^sub>1\<close>, and so does the mean over \<open>M \<ge> 1\<close> paths.
\<close>

theorem degenerate_shocks_closed_form:
  assumes "\<sigma> p = 0" and "\<sigma>_c p = 0" and "\<sigma>_d p = 0" and "0 \<le> N p" and "1 \<le> M p"
  shows "(\<forall>m. snd (simulate_path rng junk g x0 p m) = Inr (closed_form p x0)) \<and>
         snd (simulate_forward_sum_ave rng junk g x0 p) = Inr (closed_form p x0)"
proof -
  have stat: "path_statistic rng p x0 m = closed_form p x0" for m
    using assms(1-3) by (rule path_statistic_no_shock)
  have "estimate rng p x0 = closed_form p x0"
    using assms(5) stat by (intro estimate_constant) simp_all
  with stat assms(4,5) show ?thesis
    by (simp add: simulate_path_eq sfsa_eq)
qed

text \<open>
  An instance: the default parameters with the three volatilities set to 0.
\<close>

theorem degenerate_shocks_closed_form_witness:
  "\<sigma> (defaults\<lparr>\<sigma> := 0, \<sigma>_d := 0, \<sigma>_c := 0\<rparr>) = 0 \<and>
   \<sigma>_c (defaults\<lparr>\<sigma> := 0, \<sigma>_d := 0, \<sigma>_c := 0\<rparr>) = 0 \<and>
   \<sigma>_d (defaults\<lparr>\<sigma> := 0, \<sigma>_d := 0, \<sigma>_c := 0\<rparr>) = 0 \<and>
   0 \<le> N (defaults\<lparr>\<sigma> := 0, \<sigma>_d := 0, \<sigma>_c := 0\<rparr>) \<and>
   1 \<le> M (defaults\<lparr>\<sigma> := 0, \<sigma>_d := 0, \<sigma>_c := 0\<rparr>) \<and>
   snd (simulate_path counter_rng (\<lambda>c. 0) 7 (1 / 10) (defaults\<lparr>\<sigma> := 0, \<sigma>_d := 0, \<sigma>_c := 0\<rparr>) 4) =
     Inr (closed_form (defaults\<lparr>\<sigma> := 0, \<sigma>_d := 0, \<sigma>_c := 0\<rparr>) (1 / 10)) \<and>
   snd (simulate_forward_sum_ave counter_rng (\<lambda>c. 0) 7 (1 / 10)
          (defaults\<lparr>\<sigma> := 0, \<sigma>_d := 0, \<sigma>_c := 0\<rparr>)) =
     Inr (closed_form (defaults\<lparr>\<sigma> := 0, \<sigma>_d := 0, \<sigma>_c := 0\<rparr>) (1 / 10))"
proof -
  let ?p = "defaults\<lparr>\<sigma> := 0, \<sigma>_d := 0, \<sigma>_c := 0\<rparr>"
  have h: "\<sigma> ?p = 0" "\<sigma>_c ?p = 0" "\<sigma>_d ?p = 0" "0 \<le> N ?p" "1 \<le> M ?p"
    by (simp_all add: defaults_def)
  show ?thesis
    using h degenerate_shocks_closed_form [OF h, of counter_rng "\<lambda>c. 0" 7 "1 / 10"]
    by blast
qed

text \<open>
  C6, as stated, fails: the path simulator reseeds the generator it is called with and
  draws from it. Called with the counter generator at 7 for a path of length 1, it leaves
  the generator at 3.
\<close>

theorem path_simulator_reseeds_counterexample:
  "fst (simulate_path counter_rng (\<lambda>c. 0) 7 0 (defaults\<lparr>N := 1\<rparr>) 0) \<noteq> 7"
  by (simp add: simulate_path_eq after_draws_counter seed_counter defaults_def)

text \<open>
  C6, amended. The value and the final generator state of a path are the same whatever
  the generator state and the contents of fresh arrays before the call; the call does
  modify the generator, leaving it in the state reached from \<open>seed m\<close> by \<open>3 * N\<close> draws.
\<close>

theorem path_simulator_reseeds_generator:
  assumes "0 \<le> N p"
  shows "simulate_path rng junk g x0 p m = simulate_path rng junk' g' x0 p m \<and>
         fst (simulate_path rng junk g x0 p m) = after_draws rng (3 * nat (N p)) (seed rng m)"
  using assms by (simp add: simulate_path_eq)

text \<open>
  An instance: the default parameters, seed 2.
\<close>

theorem path_simulator_reseeds_generator_witness:
  "0 \<le> N defaults \<and>
   simulate_path counter_rng (\<lambda>c. 0) 7 0 defaults 2 = simulate_path counter_rng (\<lambda>c. 1) 8 0 defaults 2 \<and>
   fst (simulate_path counter_rng (\<lambda>c. 0) 7 0 defaults 2) = 3020"
proof -
  have h: "0 \<le> N defaults" by (simp add: defaults_def)
  have st: "after_draws counter_rng (3 * nat (N defaults)) (seed counter_rng 2) = 3020"
    by (simp add: after_draws_counter seed_counter defaults_def)
  show ?thesis
    using h st path_simulator_reseeds_generator [OF h, of counter_rng "\<lambda>c. 0" 7 0 2 "\<lambda>c. 1" 8]
    by metis
qed

subsection \<open>Path counts and path lengths below 1\<close>

text \<open>
  C3, as stated, fails: with \<open>N = 0\<close> and \<open>M = 1\<close> the estimator raises nothing and returns 0,
  after reseeding the generator.
\<close>

theorem zero_horizon_returns_zero_counterexample:
  "simulate_forward_sum_ave counter_rng (\<lambda>c. 0) 7 0 (defaults\<lparr>N := 0, M := 1\<rparr>) = (0, Inr 0)"
  by (simp add: simulate_forward_sum_ave_def simulate_path_def np_empty_def mean_def
      counter_rng_def defaults_def)

text \<open>
  C3, amended. There is no check of the configuration. \<open>M < 0\<close> raises ValueError at the
  first allocation, with the generator untouched. \<open>M = 0\<close> simulates no path, leaves the
  generator untouched and ends in the mean of an empty array. With \<open>M \<ge> 1\<close>, \<open>N < 0\<close>
  raises ValueError in the first path, after the reseeding with 0 and before any draw, and
  \<open>N = 0\<close> is accepted: the estimator reseeds \<open>M\<close> times, draws nothing and returns 0.
\<close>

theorem invalid_configuration_outcomes:
  "(M p < 0 \<longrightarrow> simulate_forward_sum_ave rng junk g x0 p = (g, Inl ValueError)) \<and>
   (M p = 0 \<longrightarrow> simulate_forward_sum_ave rng junk g x0 p = (g, Inl MeanOfEmptyArray)) \<and>
   (0 < M p \<and> N p < 0 \<longrightarrow>
      simulate_forward_sum_ave rng junk g x0 p = (seed rng 0, Inl ValueError)) \<and>
   (0 < M p \<and> N p = 0 \<longrightarrow>
      simulate_forward_sum_ave rng junk g x0 p = (seed rng (nat (M p) - 1), Inr 0))"
proof (intro conjI impI)
  assume "M p < 0"
  then show "simulate_forward_sum_ave rng junk g x0 p = (g, Inl ValueError)"
    by (simp add: simulate_forward_sum_ave_def np_empty_def)
next
  assume "M p = 0"
  then show "simulate_forward_sum_ave rng junk g x0 p = (g, Inl MeanOfEmptyArray)"
    by (simp add: simulate_forward_sum_ave_def np_empty_def mean_def)
next
  assume a: "0 < M p \<and> N p < 0"
  then have "[0..<nat (M p)] = 0 # [1..<nat (M p)]"
    by (simp add: upt_conv_Cons)
  with a show "simulate_forward_sum_ave rng junk g x0 p = (seed rng 0, Inl ValueError)"
    by (simp add: simulate_forward_sum_ave_def np_empty_def simulate_path_neg)
next
  assume a: "0 < M p \<and> N p = 0"
  then have "estimate rng p x0 = 0"
    by (simp add: estimate_def path_statistic_def)
  with a show "simulate_forward_sum_ave rng junk g x0 p = (seed rng (nat (M p) - 1), Inr 0)"
    by (simp add: sfsa_eq after_draws_0)
qed

text \<open>
  An instance of each of the four cases.
\<close>

theorem invalid_configuration_outcomes_witness:
  "M (defaults\<lparr>M := - 1\<rparr>) < 0 \<and>
   simulate_forward_sum_ave counter_rng (\<lambda>c. 0) 7 0 (defaults\<lparr>M := - 1\<rparr>) = (7, Inl ValueError) \<and>
   M (defaults\<lparr>M := 0\<rparr>) = 0 \<and>
   simulate_forward_sum_ave counter_rng (\<lambda>c. 0) 7 0 (defaults\<lparr>M := 0\<rparr>) = (7, Inl MeanOfEmptyArray) \<and>
   0 < M (defaults\<lparr>N := - 1\<rparr>) \<and> N (defaults\<lparr>N := - 1\<rparr>) < 0 \<and>
   simulate_forward_sum_ave counter_rng (\<lambda>c. 0) 7 0 (defaults\<lparr>N := - 1\<rparr>) = (0, Inl ValueError) \<and>
   0 < M (defaults\<lparr>N := 0, M := 3\<rparr>) \<and> N (defaults\<lparr>N := 0, M := 3\<rparr>) = 0 \<and>
   simulate_forward_sum_ave counter_rng (\<lambda>c. 0) 7 0 (defaults\<lparr>N := 0, M := 3\<rparr>) = (20, Inr 0)"
  using invalid_configuration_outcomes [of "defaults\<lparr>M := - 1\<rparr>" counter_rng "\<lambda>c. 0" 7 0]
    invalid_configuration_outcomes [of "defaults\<lparr>M := 0\<rparr>" counter_rng "\<lambda>c. 0" 7 0]
    invalid_configuration_outcomes [of "defaults\<lparr>N := - 1\<rparr>" counter_rng "\<lambda>c. 0" 7 0]
    invalid_configuration_outcomes [of "defaults\<lparr>N := 0, M := 3\<rparr>" counter_rng "\<lambda>c. 0" 7 0]
  by (simp add: defaults_def counter_rng_def)

subsection \<open>Overflow\<close>

text \<open>
  C8. Over IEEE values: if in iteration \<open>t\<close> of the path with seed \<open>m\<close> the argument of
  \<^verbatim>\<open>np.exp\<close> is a finite number whose exponential is out of range, so that the rounded
  result is an infinity or not-a-number, then nothing is raised, the value of that path is
  infinite or not-a-number, and so is the mean over the \<open>M\<close> paths that the estimator
  returns for that grid point.
\<close>

theorem overflow_poisons_estimate:
  assumes "m < nat (M p)" and "t < nat (N p)"
    and "exp_argument_at rnd rng p (seed rng m) x0 t = Fin a"
    and "rnd (exp a) = PInf \<or> rnd (exp a) = NInf \<or> rnd (exp a) = NaN"
  shows "\<exists>\<Lambda> v. snd (simulate_path_fl rnd rng junk g x0 p m) = Inr \<Lambda> \<and>
           (\<Lambda> = PInf \<or> \<Lambda> = NInf \<or> \<Lambda> = NaN) \<and>
           snd (simulate_forward_sum_ave_fl rnd rng junk g' x0 p) = Inr v \<and>
           (v = PInf \<or> v = NInf \<or> v = NaN)"
proof -
  from assms(1,2) have pos: "0 \<le> N p" "0 < M p" by simp_all
  have "nonfinite (fl_exp rnd (exp_argument_at rnd rng p (seed rng m) x0 t))"
    using assms(3,4) by (simp add: nonfinite_iff)
  with assms(2) have stat: "nonfinite (path_value_fl rnd rng p x0 m)"
    by (rule path_value_poisoned)
  have "\<exists>v. mean_fl rnd (map (path_value_fl rnd rng p x0) [0..<nat (M p)]) = Inr v \<and> nonfinite v"
    using assms(1) stat by (intro mean_fl_poisoned [of m]) simp_all
  with stat pos show ?thesis
    by (simp add: simulate_path_fl_eq sfsa_fl_eq nonfinite_iff)
qed

text \<open>
  An instance: the default parameters at \<open>x0 = -10\<close> in the small format; the first
  factor of the path with seed 0 overflows.
\<close>

theorem overflow_poisons_estimate_witness:
  "0 < nat (M defaults) \<and> 0 < nat (N defaults) \<and>
   exp_argument_at small_rnd counter_rng defaults (seed counter_rng 0) (Fin (- 10)) 0 =
     Fin (992 / 100) \<and>
   small_rnd (exp (992 / 100)) = PInf \<and>
   (\<exists>\<Lambda> v. snd (simulate_path_fl small_rnd counter_rng (\<lambda>c. NaN) 7 (Fin (- 10)) defaults 0) = Inr \<Lambda> \<and>
      (\<Lambda> = PInf \<or> \<Lambda> = NInf \<or> \<Lambda> = NaN) \<and>
      snd (simulate_forward_sum_ave_fl small_rnd counter_rng (\<lambda>c. NaN) 8 (Fin (- 10)) defaults) =
        Inr v \<and>
      (v = PInf \<or> v = NInf \<or> v = NaN))"
proof -
  have m: "0 < nat (M defaults)" and t: "0 < nat (N defaults)"
    by (simp_all add: defaults_def)
  have arg: "exp_argument_at small_rnd counter_rng defaults (seed counter_rng 0) (Fin (- 10)) 0 =
      Fin (992 / 100)"
    by (simp add: exp_argument_at_def exp_argument_def fl_sub_def small_rnd_def draw_counter
        seed_counter defaults_def Let_def)
  have "1 + 992 / 100 \<le> exp (992 / 100 :: real)"
    by (rule exp_ge_add_one_self)
  then have over: "small_rnd (exp (992 / 100)) = PInf"
    by (simp add: small_rnd_def)
  then have over': "small_rnd (exp (992 / 100)) = PInf \<or> small_rnd (exp (992 / 100)) = NInf \<or>
      small_rnd (exp (992 / 100)) = NaN"
    by simp
  show ?thesis
    using m t arg over
      overflow_poisons_estimate [OF m t arg over', of "\<lambda>c. NaN" 7 8]
    by blast
qed

end
